theory Spec2Isabelle
  imports Main "HOL-Library.Product_Lexorder"
begin

section \<open>Data model\<close>

text \<open>
  The types come from the shop context, which the components import as
  \<^verbatim>\<open>Platform\<close>, \<^verbatim>\<open>Product\<close> and \<^verbatim>\<open>CartItem\<close>. A platform identity is a string;
  a value of type \<^verbatim>\<open>Platform | null | undefined\<close> is a \<open>Platform option\<close>. Amounts are
  JavaScript numbers; they are modelled as integers. The model computes what the code
  computes as long as prices, quantities and sums are whole numbers of magnitude below
  \<open>2 ^ 53\<close>, where the arithmetic of doubles is exact; fractional amounts and larger
  ones are outside the model.

  Field names: a price tuple \<^verbatim>\<open>{platform, price, available}\<close> is \<open>PriceInfo\<close> with
  fields \<open>p_platform\<close>, \<open>p_price\<close>, \<open>p_available\<close>; an element of \<^verbatim>\<open>platforms\<close>,
  \<^verbatim>\<open>{id, name}\<close>, is \<open>PlatformEntry\<close> with \<open>platform_id\<close>, \<open>platform_name\<close>; the other
  fields keep the names of the source.
\<close>

type_synonym Platform = string

record PriceInfo =
  p_platform :: Platform
  p_price :: int
  p_available :: bool

record Product =
  product_id :: string
  product_name :: string
  prices :: "PriceInfo list"

record CartItem =
  product :: Product
  quantity :: int
  platform :: "Platform option"

record PlatformEntry =
  platform_id :: Platform
  platform_name :: string

text \<open>
  The object built in \<^verbatim>\<open>sortedPlatforms\<close>:
  \<^verbatim>\<open>{...platform, unavailableItems, available, total}\<close>.
\<close>

record PlatformResult = PlatformEntry +
  unavailableItems :: "CartItem list"
  available :: bool
  total :: int

section \<open>JavaScript operators used by the components\<close>

text \<open>Truthiness of a \<^verbatim>\<open>Platform | null | undefined\<close>: a string is truthy when non-empty.\<close>

fun truthy :: "Platform option \<Rightarrow> bool" where
  "truthy None = False"
| "truthy (Some s) = (s \<noteq> [])"

text \<open>\<^verbatim>\<open>a || b\<close> on two such values.\<close>

definition js_or :: "Platform option \<Rightarrow> Platform option \<Rightarrow> Platform option" where
  "js_or a b = (if truthy a then a else b)"

text \<open>
  \<^verbatim>\<open>Array.prototype.sort(compareFn)\<close>. ECMAScript (2019 and later) requires the sort to
  be stable; for a consistent comparator this fixes the result, which is the one a
  stable insertion sort produces: an element is placed before the first later element
  it does not compare greater than.
\<close>

fun array_insert :: "('a \<Rightarrow> 'a \<Rightarrow> int) \<Rightarrow> 'a \<Rightarrow> 'a list \<Rightarrow> 'a list" where
  "array_insert cmp x [] = [x]"
| "array_insert cmp x (y # ys) =
     (if cmp x y \<le> 0 then x # y # ys else y # array_insert cmp x ys)"

fun array_sort :: "('a \<Rightarrow> 'a \<Rightarrow> int) \<Rightarrow> 'a list \<Rightarrow> 'a list" where
  "array_sort cmp [] = []"
| "array_sort cmp (x # xs) = array_insert cmp x (array_sort cmp xs)"

section \<open>The shop context: \<^verbatim>\<open>getCartTotal\<close>\<close>

text \<open>
  The callback of \<^verbatim>\<open>item.product.prices.find\<close> inside \<^verbatim>\<open>getCartTotal\<close>:
  \<^verbatim>\<open>p => p.platform === (item.platform || selectedPlatform)\<close>.
\<close>

definition cartPriceInfo :: "Platform option \<Rightarrow> CartItem \<Rightarrow> PriceInfo option" where
  "cartPriceInfo selectedPlatform item =
     find (\<lambda>p. Some (p_platform p) = js_or (platform item) selectedPlatform)
       (prices (product item))"

text \<open>
  One step of the \<^verbatim>\<open>reduce\<close>: an entry is skipped when a platform is given and the
  entry's platform differs from it; otherwise its price times quantity is added when the
  resolved tuple exists and is available.
\<close>

definition cartTotalStep ::
  "Platform option \<Rightarrow> Platform option \<Rightarrow> CartItem \<Rightarrow> int \<Rightarrow> int" where
  "cartTotalStep selectedPlatform pf item tot =
     (if truthy pf \<and> platform item \<noteq> pf then tot
      else (case cartPriceInfo selectedPlatform item of
              None \<Rightarrow> tot
            | Some priceInfo \<Rightarrow>
                if p_available priceInfo then tot + p_price priceInfo * quantity item
                else tot))"

text \<open>
  \<^verbatim>\<open>getCartTotal(platform?)\<close> reads \<^verbatim>\<open>cart\<close> and \<^verbatim>\<open>selectedPlatform\<close> from the provider's
  state; both are arguments here.
\<close>

definition getCartTotal :: "CartItem list \<Rightarrow> Platform option \<Rightarrow> Platform option \<Rightarrow> int" where
  "getCartTotal cart selectedPlatform pf = fold (cartTotalStep selectedPlatform pf) cart 0"

section \<open>The cart row: \<^verbatim>\<open>getPriceInfo\<close>\<close>

text \<open>
  \<^verbatim>\<open>const targetPlatform = platformFilter || platform;
  if (!targetPlatform) return null;
  return product.prices.find(p => p.platform === targetPlatform);\<close>
  Both \<^verbatim>\<open>null\<close> and the \<^verbatim>\<open>undefined\<close> of an unsuccessful \<^verbatim>\<open>find\<close> are \<open>None\<close>.
\<close>

definition getPriceInfo :: "CartItem \<Rightarrow> Platform option \<Rightarrow> PriceInfo option" where
  "getPriceInfo item platformFilter =
     (let targetPlatform = js_or platformFilter (platform item)
      in if \<not> truthy targetPlatform then None
         else find (\<lambda>p. Some (p_platform p) = targetPlatform) (prices (product item)))"

text \<open>
  What the row shows: \<^verbatim>\<open>isAvailable = priceInfo && priceInfo.available\<close>, and then
  \<^verbatim>\<open>priceInfo.price * quantity\<close> when \<^verbatim>\<open>isAvailable\<close>, "Not Available" (\<open>None\<close>) otherwise.
\<close>

definition displayedAmount :: "CartItem \<Rightarrow> Platform option \<Rightarrow> int option" where
  "displayedAmount item platformFilter =
     (case getPriceInfo item platformFilter of
        None \<Rightarrow> None
      | Some priceInfo \<Rightarrow>
          if p_available priceInfo then Some (p_price priceInfo * quantity item) else None)"

section \<open>The comparison table\<close>

text \<open>\<^verbatim>\<open>item.product.prices.find(p => p.platform === platform)\<close>\<close>

definition priceInfoOn :: "Platform \<Rightarrow> CartItem \<Rightarrow> PriceInfo option" where
  "priceInfoOn pf item = find (\<lambda>p. p_platform p = pf) (prices (product item))"

text \<open>The filter callback \<^verbatim>\<open>!priceInfo || !priceInfo.available\<close>.\<close>

definition itemUnavailable :: "Platform \<Rightarrow> CartItem \<Rightarrow> bool" where
  "itemUnavailable pf item =
     (case priceInfoOn pf item of None \<Rightarrow> True | Some priceInfo \<Rightarrow> \<not> p_available priceInfo)"

text \<open>The callback of \<^verbatim>\<open>every\<close>, \<^verbatim>\<open>priceInfo && priceInfo.available\<close>, as a truth value.\<close>

definition itemAvailable :: "Platform \<Rightarrow> CartItem \<Rightarrow> bool" where
  "itemAvailable pf item =
     (case priceInfoOn pf item of None \<Rightarrow> False | Some priceInfo \<Rightarrow> p_available priceInfo)"

definition getUnavailableItems :: "CartItem list \<Rightarrow> Platform \<Rightarrow> CartItem list" where
  "getUnavailableItems cart pf = filter (itemUnavailable pf) cart"

definition areAllItemsAvailable :: "CartItem list \<Rightarrow> Platform \<Rightarrow> bool" where
  "areAllItemsAvailable cart pf = list_all (itemAvailable pf) cart"

text \<open>The callback of \<^verbatim>\<open>platforms.map\<close>.\<close>

definition platformResult ::
  "CartItem list \<Rightarrow> Platform option \<Rightarrow> PlatformEntry \<Rightarrow> PlatformResult" where
  "platformResult cart selectedPlatform p =
     \<lparr> platform_id = platform_id p, platform_name = platform_name p,
       unavailableItems = getUnavailableItems cart (platform_id p),
       available = areAllItemsAvailable cart (platform_id p),
       total = (if areAllItemsAvailable cart (platform_id p)
                then getCartTotal cart selectedPlatform (Some (platform_id p)) else - 1) \<rparr>"

text \<open>The comparator given to \<^verbatim>\<open>sort\<close>.\<close>

definition compareResults :: "PlatformResult \<Rightarrow> PlatformResult \<Rightarrow> int" where
  "compareResults a b =
     (if available a \<and> \<not> available b then - 1
      else if \<not> available a \<and> available b then 1
      else total a - total b)"

text \<open>
  \<^verbatim>\<open>sortedPlatforms\<close> is the operation the specification calls \<^verbatim>\<open>evaluate\<close>; the
  selected platform of the provider is the second argument.
\<close>

definition sortedPlatforms ::
  "CartItem list \<Rightarrow> Platform option \<Rightarrow> PlatformEntry list \<Rightarrow> PlatformResult list" where
  "sortedPlatforms cart selectedPlatform platforms =
     array_sort compareResults (map (platformResult cart selectedPlatform) platforms)"

text \<open>\<^verbatim>\<open>sortedPlatforms.find(p => p.available)\<close>; \<^verbatim>\<open>undefined\<close> is \<open>None\<close>.\<close>

definition bestPlatform ::
  "CartItem list \<Rightarrow> Platform option \<Rightarrow> PlatformEntry list \<Rightarrow> PlatformResult option" where
  "bestPlatform cart selectedPlatform platforms =
     find available (sortedPlatforms cart selectedPlatform platforms)"

section \<open>The example of the specification\<close>

definition productA :: Product where
  "productA = \<lparr> product_id = ''a'', product_name = ''productA'',
     prices = [\<lparr> p_platform = ''X'', p_price = 10, p_available = True \<rparr>,
               \<lparr> p_platform = ''Y'', p_price = 8, p_available = False \<rparr>] \<rparr>"

definition exampleCart :: "CartItem list" where
  "exampleCart = [\<lparr> product = productA, quantity = 2, platform = None \<rparr>]"

definition examplePlatforms :: "PlatformEntry list" where
  "examplePlatforms = [\<lparr> platform_id = ''X'', platform_name = ''X'' \<rparr>,
                       \<lparr> platform_id = ''Y'', platform_name = ''Y'' \<rparr>]"

definition productB :: Product where
  "productB = \<lparr> product_id = ''b'', product_name = ''productB'',
     prices = [\<lparr> p_platform = ''X'', p_price = 10, p_available = True \<rparr>,
               \<lparr> p_platform = ''Y'', p_price = 8, p_available = True \<rparr>] \<rparr>"

text \<open>A cart whose entry is pinned to X, an entry pinned to Y, and an entry that is not pinned.\<close>

definition pinnedCart :: "CartItem list" where
  "pinnedCart = [\<lparr> product = productB, quantity = 2, platform = Some ''X'' \<rparr>]"

definition pinnedToY :: CartItem where
  "pinnedToY = \<lparr> product = productA, quantity = 1, platform = Some ''Y'' \<rparr>"

definition unpinnedItem :: CartItem where
  "unpinnedItem = \<lparr> product = productA, quantity = 2, platform = None \<rparr>"

text \<open>The example cart after the price of the unavailable tuple for Y is changed.\<close>

definition repricedCart :: "CartItem list" where
  "repricedCart = [\<lparr> product = \<lparr> product_id = ''a'', product_name = ''productA'',
     prices = [\<lparr> p_platform = ''X'', p_price = 10, p_available = True \<rparr>,
               \<lparr> p_platform = ''Y'', p_price = 999, p_available = False \<rparr>] \<rparr>,
     quantity = 2, platform = None \<rparr>]"

definition threePlatforms :: "PlatformEntry list" where
  "threePlatforms = [\<lparr> platform_id = ''Y'', platform_name = ''Y'' \<rparr>,
                     \<lparr> platform_id = ''Z'', platform_name = ''Z'' \<rparr>,
                     \<lparr> platform_id = ''X'', platform_name = ''X'' \<rparr>]"

text \<open>
  A platform whose identity is the empty string, and an entry, not pinned, of a product
  that has a price on it.
\<close>

definition emptyIdPlatforms :: "PlatformEntry list" where
  "emptyIdPlatforms = [\<lparr> platform_id = [], platform_name = ''E'' \<rparr>]"

definition emptyIdCart :: "CartItem list" where
  "emptyIdCart = [\<lparr> product = \<lparr> product_id = ''c'', product_name = ''productC'',
     prices = [\<lparr> p_platform = [], p_price = 5, p_available = True \<rparr>,
               \<lparr> p_platform = ''X'', p_price = 10, p_available = True \<rparr>] \<rparr>,
     quantity = 2, platform = None \<rparr>]"

section \<open>Notions of the specification\<close>

text \<open>The ranking key \<open>(\<not> available, total)\<close>, ordered lexicographically with \<open>False < True\<close>.\<close>

definition sortKey :: "PlatformResult \<Rightarrow> bool \<times> int" where
  "sortKey r = (\<not> available r, total r)"

text \<open>
  The ranking rule in words: an available platform precedes an unavailable one, and
  within one availability group the totals ascend.
\<close>

definition rankedBefore :: "PlatformResult \<Rightarrow> PlatformResult \<Rightarrow> bool" where
  "rankedBefore a b =
     ((available a \<and> \<not> available b) \<or> (available a = available b \<and> total a \<le> total b))"

text \<open>The result for a platform when the cart is empty: available, total 0.\<close>

definition emptyCartResult :: "PlatformEntry \<Rightarrow> PlatformResult" where
  "emptyCartResult p = \<lparr> platform_id = platform_id p, platform_name = platform_name p,
       unavailableItems = [], available = True, total = 0 \<rparr>"

text \<open>
  The two situations in which the cart row and the total resolve an entry differently:
  the entry is pinned to a platform other than the context platform, or the entry is not
  pinned and the context platform is the empty string.
\<close>

definition contextConflicts :: "CartItem \<Rightarrow> Platform option \<Rightarrow> bool" where
  "contextConflicts item ctx \<longleftrightarrow>
     (truthy (platform item) \<and> truthy ctx \<and> platform item \<noteq> ctx) \<or>
     (\<not> truthy (platform item) \<and> ctx = Some [])"

text \<open>
  Two price tuples that differ at most in the price of an unavailable tuple, and two
  cart entries that differ at most in such prices.
\<close>

definition samePriceUnlessUnavailable :: "PriceInfo \<Rightarrow> PriceInfo \<Rightarrow> bool" where
  "samePriceUnlessUnavailable p q \<longleftrightarrow>
     p_platform p = p_platform q \<and> p_available p = p_available q \<and>
     (p_available p \<longrightarrow> p_price p = p_price q)"

definition sameItemUnlessUnavailable :: "CartItem \<Rightarrow> CartItem \<Rightarrow> bool" where
  "sameItemUnlessUnavailable i j \<longleftrightarrow>
     quantity i = quantity j \<and> platform i = platform j \<and>
     product_id (product i) = product_id (product j) \<and>
     product_name (product i) = product_name (product j) \<and>
     list_all2 samePriceUnlessUnavailable (prices (product i)) (prices (product j))"

section \<open>The arrays as objects in a store\<close>

text \<open>
  JavaScript arrays are objects held by reference: \<^verbatim>\<open>map\<close> and \<^verbatim>\<open>filter\<close> create a new
  array, \<^verbatim>\<open>sort\<close> reorders the array it is called on and returns the same reference,
  \<^verbatim>\<open>every\<close>, \<^verbatim>\<open>reduce\<close> and \<^verbatim>\<open>find\<close> only read. The store is a list of arrays; an
  address is an index into it, and a new array is appended at the end. The elements
  (platform objects, cart items) are values, since no code of the component assigns to a
  field of an element; the object built by the \<^verbatim>\<open>map\<close> callback holds the reference to its
  \<^verbatim>\<open>unavailableItems\<close> array.
\<close>

type_synonym addr = nat

record StoredResult = PlatformEntry +
  unavailableItemsAt :: addr
  s_available :: bool
  s_total :: int

datatype array = Platforms "PlatformEntry list" | Items "CartItem list" | Results "StoredResult list"

type_synonym store = "array list"

definition lookup :: "store \<Rightarrow> addr \<Rightarrow> array option" where
  "lookup h a = (if a < length h then Some (h ! a) else None)"

definition alloc :: "array \<Rightarrow> store \<Rightarrow> addr \<times> store" where
  "alloc c h = (length h, h @ [c])"

text \<open>
  The operations return \<open>None\<close> where the reference does not hold an array of the
  expected kind (a \<^verbatim>\<open>TypeError\<close>, or a type the checker excludes).
\<close>

definition getUnavailableItems_st :: "addr \<Rightarrow> Platform \<Rightarrow> store \<Rightarrow> (addr \<times> store) option" where
  "getUnavailableItems_st cartAt pf h =
     (case lookup h cartAt of
        Some (Items cart) \<Rightarrow> Some (alloc (Items (filter (itemUnavailable pf) cart)) h)
      | _ \<Rightarrow> None)"

definition areAllItemsAvailable_st :: "addr \<Rightarrow> Platform \<Rightarrow> store \<Rightarrow> bool option" where
  "areAllItemsAvailable_st cartAt pf h =
     (case lookup h cartAt of
        Some (Items cart) \<Rightarrow> Some (list_all (itemAvailable pf) cart)
      | _ \<Rightarrow> None)"

definition getCartTotal_st ::
  "addr \<Rightarrow> Platform option \<Rightarrow> Platform option \<Rightarrow> store \<Rightarrow> int option" where
  "getCartTotal_st cartAt selectedPlatform pf h =
     (case lookup h cartAt of
        Some (Items cart) \<Rightarrow> Some (fold (cartTotalStep selectedPlatform pf) cart 0)
      | _ \<Rightarrow> None)"

text \<open>The callback of \<^verbatim>\<open>platforms.map\<close>, in the order in which it evaluates its fields.\<close>

definition platformResult_st ::
  "addr \<Rightarrow> Platform option \<Rightarrow> PlatformEntry \<Rightarrow> store \<Rightarrow> (StoredResult \<times> store) option" where
  "platformResult_st cartAt selectedPlatform p h =
     (case getUnavailableItems_st cartAt (platform_id p) h of
        None \<Rightarrow> None
      | Some (u, h1) \<Rightarrow>
          (case areAllItemsAvailable_st cartAt (platform_id p) h1 of
             None \<Rightarrow> None
           | Some av \<Rightarrow>
               (case areAllItemsAvailable_st cartAt (platform_id p) h1 of
                  None \<Rightarrow> None
                | Some av' \<Rightarrow>
                    (case (if av' then getCartTotal_st cartAt selectedPlatform
                                         (Some (platform_id p)) h1
                           else Some (- 1)) of
                       None \<Rightarrow> None
                     | Some tot \<Rightarrow>
                         Some (\<lparr> platform_id = platform_id p, platform_name = platform_name p,
                                 unavailableItemsAt = u, s_available = av, s_total = tot \<rparr>,
                               h1)))))"

text \<open>The loop of \<^verbatim>\<open>map\<close> over the elements, threading the store through the callback.\<close>

fun mapPlatforms_st ::
  "addr \<Rightarrow> Platform option \<Rightarrow> PlatformEntry list \<Rightarrow> store \<Rightarrow> (StoredResult list \<times> store) option"
where
  "mapPlatforms_st cartAt selectedPlatform [] h = Some ([], h)"
| "mapPlatforms_st cartAt selectedPlatform (p # ps) h =
     (case platformResult_st cartAt selectedPlatform p h of
        None \<Rightarrow> None
      | Some (r, h1) \<Rightarrow>
          (case mapPlatforms_st cartAt selectedPlatform ps h1 of
             None \<Rightarrow> None
           | Some (rs, h2) \<Rightarrow> Some (r # rs, h2)))"

text \<open>\<^verbatim>\<open>platforms.map(...)\<close>: the results go into a new array.\<close>

definition array_map_st ::
  "addr \<Rightarrow> addr \<Rightarrow> Platform option \<Rightarrow> store \<Rightarrow> (addr \<times> store) option" where
  "array_map_st platformsAt cartAt selectedPlatform h =
     (case lookup h platformsAt of
        Some (Platforms ps) \<Rightarrow>
          (case mapPlatforms_st cartAt selectedPlatform ps h of
             None \<Rightarrow> None
           | Some (rs, h1) \<Rightarrow> Some (alloc (Results rs) h1))
      | _ \<Rightarrow> None)"

definition compareResults_st :: "StoredResult \<Rightarrow> StoredResult \<Rightarrow> int" where
  "compareResults_st a b =
     (if s_available a \<and> \<not> s_available b then - 1
      else if \<not> s_available a \<and> s_available b then 1
      else s_total a - s_total b)"

text \<open>\<^verbatim>\<open>.sort(compareFn)\<close>: in place, and the result is the reference it was called on.\<close>

definition array_sort_st :: "addr \<Rightarrow> store \<Rightarrow> (addr \<times> store) option" where
  "array_sort_st a h =
     (case lookup h a of
        Some (Results rs) \<Rightarrow> Some (a, h[a := Results (array_sort compareResults_st rs)])
      | _ \<Rightarrow> None)"

definition sortedPlatforms_st ::
  "addr \<Rightarrow> addr \<Rightarrow> Platform option \<Rightarrow> store \<Rightarrow> (addr \<times> store) option" where
  "sortedPlatforms_st platformsAt cartAt selectedPlatform h =
     (case array_map_st platformsAt cartAt selectedPlatform h of
        None \<Rightarrow> None
      | Some (a, h1) \<Rightarrow> array_sort_st a h1)"

text \<open>Reading a stored result back as a value, following its reference.\<close>

definition resultOf :: "store \<Rightarrow> StoredResult \<Rightarrow> PlatformResult" where
  "resultOf h r =
     \<lparr> platform_id = platform_id r, platform_name = platform_name r,
       unavailableItems = (case lookup h (unavailableItemsAt r) of
                             Some (Items xs) \<Rightarrow> xs | _ \<Rightarrow> []),
       available = s_available r, total = s_total r \<rparr>"

definition resultsAt :: "store \<Rightarrow> addr \<Rightarrow> PlatformResult list option" where
  "resultsAt h a =
     (case lookup h a of Some (Results rs) \<Rightarrow> Some (map (resultOf h) rs) | _ \<Rightarrow> None)"

definition exampleStore :: store where
  "exampleStore = [Platforms examplePlatforms, Items exampleCart]"


section \<open>The sort\<close>
lemma compareResults_le_iff: "compareResults a b \<le> 0 \<longleftrightarrow> sortKey a \<le> sortKey b"
  by (auto simp: compareResults_def sortKey_def less_eq_prod_def)

lemma sortKey_le_iff: "sortKey a \<le> sortKey b \<longleftrightarrow> rankedBefore a b"
  by (auto simp: rankedBefore_def sortKey_def less_eq_prod_def)

lemma array_insert_insort_key:
  assumes "\<And>x y. cmp x y \<le> 0 \<longleftrightarrow> f x \<le> f y"
  shows "array_insert cmp x xs = insort_key f x xs"
  by (induction xs) (simp_all add: assms)

lemma array_sort_sort_key:
  assumes "\<And>x y. cmp x y \<le> 0 \<longleftrightarrow> f x \<le> f y"
  shows "array_sort cmp xs = sort_key f xs"
  by (induction xs) (simp_all add: array_insert_insort_key [OF assms])

lemma sortedPlatforms_sort_key:
  "sortedPlatforms cart sel ps = sort_key sortKey (map (platformResult cart sel) ps)"
  unfolding sortedPlatforms_def
  by (rule array_sort_sort_key) (rule compareResults_le_iff)

lemma set_sortedPlatforms:
  "set (sortedPlatforms cart sel ps) = platformResult cart sel ` set ps"
  by (simp add: sortedPlatforms_sort_key)

lemma sorted_sortedPlatforms: "sorted_wrt rankedBefore (sortedPlatforms cart sel ps)"
proof -
  have "sorted (map sortKey (sortedPlatforms cart sel ps))"
    by (simp add: sortedPlatforms_sort_key)
  then show ?thesis
    by (simp add: sorted_map sortKey_le_iff)
qed

section \<open>Ranking\<close>

text \<open>
  Claim C3. For every cart and every sequence of platforms, the ranked sequence is sorted
  by the key (not available, total) ascending: every available platform precedes every
  unavailable one, and within the available group the totals ascend. The first conjunct is
  the ranking rule on adjacent and distant pairs alike; the second spells it out by
  position.
\<close>

theorem sortedPlatforms_ranked: 
  "sorted_wrt rankedBefore (sortedPlatforms cart sel ps) \<and>
   (\<forall>i j. i < j \<and> j < length (sortedPlatforms cart sel ps) \<longrightarrow>
      (available (sortedPlatforms cart sel ps ! j) \<longrightarrow> available (sortedPlatforms cart sel ps ! i)) \<and>
      (available (sortedPlatforms cart sel ps ! i) \<and> available (sortedPlatforms cart sel ps ! j) \<longrightarrow>
         total (sortedPlatforms cart sel ps ! i) \<le> total (sortedPlatforms cart sel ps ! j)))"
proof -
  let ?rs = "sortedPlatforms cart sel ps"
  have s: "sorted_wrt rankedBefore ?rs" by (rule sorted_sortedPlatforms)
  have "rankedBefore (?rs ! i) (?rs ! j)" if "i < j" "j < length ?rs" for i j
    using s that by (simp add: sorted_wrt_iff_nth_less)
  then show ?thesis using s by (auto simp: rankedBefore_def)
qed

theorem sortedPlatforms_ranked_witness:
  "(0::nat) < 1 \<and> 1 < length (sortedPlatforms pinnedCart None examplePlatforms) \<and>
   available (sortedPlatforms pinnedCart None examplePlatforms ! 0) \<and>
   available (sortedPlatforms pinnedCart None examplePlatforms ! 1) \<and>
   total (sortedPlatforms pinnedCart None examplePlatforms ! 0)
     \<le> total (sortedPlatforms pinnedCart None examplePlatforms ! 1) \<and>
   map platform_id (sortedPlatforms pinnedCart None examplePlatforms) = [''Y'', ''X'']"
proof -
  have l: "1 < length (sortedPlatforms pinnedCart None examplePlatforms)"
    by code_simp
  have a: "available (sortedPlatforms pinnedCart None examplePlatforms ! 0)"
          "available (sortedPlatforms pinnedCart None examplePlatforms ! 1)"
    by code_simp+
  have m: "map platform_id (sortedPlatforms pinnedCart None examplePlatforms) = [''Y'', ''X'']"
    by code_simp
  show ?thesis
    using sortedPlatforms_ranked [of pinnedCart None examplePlatforms] l a m by simp
qed

text \<open>
  Claim C7. The ranking is stable: the platforms that share one sort key appear in the
  output in the order in which they appear in the input. This holds for every key, so in
  particular for the unavailable platforms (key (True, -1)) and for available platforms
  with equal totals.
\<close>

theorem sortedPlatforms_stable: "filter (\<lambda>r. sortKey r = k) (sortedPlatforms cart sel ps) =
   filter (\<lambda>r. sortKey r = k) (map (platformResult cart sel) ps)"
  by (simp only: sortedPlatforms_sort_key sort_key_stable)

theorem sortedPlatforms_stable_witness:
  "map platform_id (sortedPlatforms exampleCart None threePlatforms) = [''X'', ''Y'', ''Z''] \<and>
   map platform_id (filter (\<lambda>r. sortKey r = (True, - 1))
      (sortedPlatforms exampleCart None threePlatforms)) = [''Y'', ''Z'']"
proof -
  have m: "map platform_id (sortedPlatforms exampleCart None threePlatforms) = [''X'', ''Y'', ''Z'']"
    by code_simp
  have f: "map platform_id (filter (\<lambda>r. sortKey r = (True, - 1))
      (map (platformResult exampleCart None) threePlatforms)) = [''Y'', ''Z'']"
    by code_simp
  show ?thesis
    using sortedPlatforms_stable [of "(True, - 1)" exampleCart None threePlatforms] m f by simp
qed

section \<open>Availability\<close>

text \<open>
  Claim C6. For every cart and platform, the platform is available exactly when its list
  of unavailable items is empty; this holds for the two functions of the component and
  for the two fields of every element of the ranked sequence.
\<close>

theorem available_iff_no_unavailableItems: "(areAllItemsAvailable cart pf \<longleftrightarrow> getUnavailableItems cart pf = []) \<and>
  (\<forall>r \<in> set (sortedPlatforms cart sel ps). available r \<longleftrightarrow> unavailableItems r = [])"
proof -
  have a: "areAllItemsAvailable cart pf \<longleftrightarrow> getUnavailableItems cart pf = []" for pf
    by (auto simp: areAllItemsAvailable_def getUnavailableItems_def list_all_iff filter_empty_conv
        itemAvailable_def itemUnavailable_def split: option.splits)
  show ?thesis using a by (auto simp: set_sortedPlatforms platformResult_def)
qed

theorem available_iff_no_unavailableItems_witness:
  "areAllItemsAvailable exampleCart ''X'' \<and> getUnavailableItems exampleCart ''X'' = [] \<and>
   \<not> areAllItemsAvailable exampleCart ''Y'' \<and> getUnavailableItems exampleCart ''Y'' \<noteq> [] \<and>
   map available (sortedPlatforms exampleCart None examplePlatforms) = [True, False] \<and>
   map unavailableItems (sortedPlatforms exampleCart None examplePlatforms) = [[], exampleCart]"
proof -
  have x: "areAllItemsAvailable exampleCart ''X''" by code_simp
  have m: "map available (sortedPlatforms exampleCart None examplePlatforms) = [True, False]"
    "map unavailableItems (sortedPlatforms exampleCart None examplePlatforms) = [[], exampleCart]"
    by code_simp+
  have y: "\<not> areAllItemsAvailable exampleCart ''Y''" by code_simp
  show ?thesis
    using available_iff_no_unavailableItems [of exampleCart "''X''" None examplePlatforms]
      available_iff_no_unavailableItems [of exampleCart "''Y''" None examplePlatforms] x y m
    by simp
qed

section \<open>Totals\<close>

lemma find_related:
  assumes "list_all2 samePriceUnlessUnavailable xs ys"
  shows "rel_option samePriceUnlessUnavailable
           (find (\<lambda>p. P (p_platform p)) xs) (find (\<lambda>p. P (p_platform p)) ys)"
  using assms
  by (induction rule: list_all2_induct) (auto simp: samePriceUnlessUnavailable_def)

lemma cartPriceInfo_related:
  assumes "sameItemUnlessUnavailable i j"
  shows "rel_option samePriceUnlessUnavailable (cartPriceInfo sel i) (cartPriceInfo sel j)"
proof -
  have "list_all2 samePriceUnlessUnavailable (prices (product i)) (prices (product j))"
    and "platform i = platform j"
    using assms by (simp_all add: sameItemUnlessUnavailable_def)
  then show ?thesis
    unfolding cartPriceInfo_def
    using find_related [where P = "\<lambda>s. Some s = js_or (platform j) sel"] by simp
qed

lemma priceInfoOn_related:
  assumes "sameItemUnlessUnavailable i j"
  shows "rel_option samePriceUnlessUnavailable (priceInfoOn pf i) (priceInfoOn pf j)"
proof -
  have "list_all2 samePriceUnlessUnavailable (prices (product i)) (prices (product j))"
    using assms by (simp add: sameItemUnlessUnavailable_def)
  then show ?thesis
    unfolding priceInfoOn_def
    using find_related [where P = "\<lambda>s. s = pf"] by simp
qed

lemma cartTotalStep_related:
  assumes "sameItemUnlessUnavailable i j"
  shows "cartTotalStep sel pf i tot = cartTotalStep sel pf j tot"
proof -
  have q: "quantity i = quantity j" "platform i = platform j"
    using assms by (simp_all add: sameItemUnlessUnavailable_def)
  show ?thesis
    using cartPriceInfo_related [OF assms, of sel] q
    by (cases "cartPriceInfo sel i"; cases "cartPriceInfo sel j")
       (auto simp: cartTotalStep_def samePriceUnlessUnavailable_def)
qed

lemma itemAvailable_related:
  assumes "sameItemUnlessUnavailable i j"
  shows "itemAvailable pf i = itemAvailable pf j"
  using priceInfoOn_related [OF assms, of pf]
  by (cases "priceInfoOn pf i"; cases "priceInfoOn pf j")
     (auto simp: itemAvailable_def samePriceUnlessUnavailable_def)

lemma getCartTotal_related:
  assumes "list_all2 sameItemUnlessUnavailable cart cart'"
  shows "getCartTotal cart sel pf = getCartTotal cart' sel pf"
proof -
  have "fold (cartTotalStep sel pf) cart acc = fold (cartTotalStep sel pf) cart' acc" for acc
    using assms
    by (induction arbitrary: acc rule: list_all2_induct) (simp_all add: cartTotalStep_related)
  then show ?thesis by (simp add: getCartTotal_def)
qed

lemma areAllItemsAvailable_related:
  assumes "list_all2 sameItemUnlessUnavailable cart cart'"
  shows "areAllItemsAvailable cart pf = areAllItemsAvailable cart' pf"
  using assms unfolding areAllItemsAvailable_def
  by (induction rule: list_all2_induct) (simp_all add: itemAvailable_related)

lemma sortKey_platformResult_related:
  assumes "list_all2 sameItemUnlessUnavailable cart cart'"
  shows "sortKey (platformResult cart sel p) = sortKey (platformResult cart' sel p)"
  using getCartTotal_related [OF assms] areAllItemsAvailable_related [OF assms]
  by (simp add: sortKey_def platformResult_def)

lemma insort_key_same_keys:
  assumes "f x = f y" "list_all2 (\<lambda>a b. f a = f b) xs ys"
  shows "list_all2 (\<lambda>a b. f a = f b) (insort_key f x xs) (insort_key f y ys)"
  using assms(2,1) by (induction rule: list_all2_induct) auto

lemma sort_key_same_keys:
  assumes "list_all2 (\<lambda>a b. f a = f b) xs ys"
  shows "list_all2 (\<lambda>a b. f a = f b) (sort_key f xs) (sort_key f ys)"
  using assms by (induction rule: list_all2_induct) (simp_all add: insort_key_same_keys)

text \<open>
  Claim C1. The claim says that the total of an available platform P sums price times
  quantity over all cart entries, an entry pinned elsewhere at its own platform's price and
  the others at P's price, so that the example of the specification (one entry, not
  pinned, quantity 2, price 10 on X) has total 20 for X. The code does not do this: the
  table computes the total as \<^verbatim>\<open>getCartTotal(platform.id)\<close>, which skips every entry
  whose platform differs from its argument, while the availability in the same callback
  ranges over every entry. In the example X is available with total 0. With the entry
  pinned to X (price 10 on X, 8 on Y, quantity 2) both platforms are available, Y has
  total 0 and X has total 20, and the best deal is Y.
\<close>

theorem example_total_is_not_20:
  "map platform_id (sortedPlatforms exampleCart None examplePlatforms) = [''X'', ''Y''] \<and>
   map available (sortedPlatforms exampleCart None examplePlatforms) = [True, False] \<and>
   map total (sortedPlatforms exampleCart None examplePlatforms) = [0, - 1] \<and>
   map total (sortedPlatforms exampleCart (Some ''X'') examplePlatforms) \<noteq> [20, - 1] \<and>
   map platform_id (sortedPlatforms pinnedCart None examplePlatforms) = [''Y'', ''X''] \<and>
   map available (sortedPlatforms pinnedCart None examplePlatforms) = [True, True] \<and>
   map total (sortedPlatforms pinnedCart None examplePlatforms) = [0, 20] \<and>
   map_option platform_id (bestPlatform pinnedCart None examplePlatforms) = Some ''Y''"
  by code_simp

text \<open>
  Claim C8. The price stored in an unavailable price tuple never influences a total: two
  carts that differ at most in the prices of unavailable tuples have the same
  \<^verbatim>\<open>getCartTotal\<close>, for every selected platform and every platform argument, and the same
  totals in the ranked sequence.
\<close>

theorem unavailable_price_never_counts:
  assumes "list_all2 sameItemUnlessUnavailable cart cart'"
  shows "getCartTotal cart sel pf = getCartTotal cart' sel pf \<and>
         map total (sortedPlatforms cart sel ps) = map total (sortedPlatforms cart' sel ps)"
proof -
  have "list_all2 (\<lambda>a b. sortKey a = sortKey b)
          (map (platformResult cart sel) ps) (map (platformResult cart' sel) ps)"
    by (simp add: list_all2_map1 list_all2_map2 list.rel_refl sortKey_platformResult_related [OF assms])
  then have "list_all2 (\<lambda>a b. sortKey a = sortKey b)
          (sortedPlatforms cart sel ps) (sortedPlatforms cart' sel ps)"
    unfolding sortedPlatforms_sort_key by (rule sort_key_same_keys)
  then have "list_all2 (\<lambda>a b. total a = total b)
          (sortedPlatforms cart sel ps) (sortedPlatforms cart' sel ps)"
    by (rule list_all2_mono) (simp add: sortKey_def)
  then have "map total (sortedPlatforms cart sel ps) = map total (sortedPlatforms cart' sel ps)"
    by (simp add: list.rel_eq [symmetric] list.rel_map)
  then show ?thesis using getCartTotal_related [OF assms] by simp
qed

theorem unavailable_price_never_counts_witness:
  "list_all2 sameItemUnlessUnavailable exampleCart repricedCart \<and>
   exampleCart \<noteq> repricedCart \<and>
   getCartTotal exampleCart (Some ''Y'') None = getCartTotal repricedCart (Some ''Y'') None \<and>
   map total (sortedPlatforms exampleCart (Some ''Y'') examplePlatforms) =
   map total (sortedPlatforms repricedCart (Some ''Y'') examplePlatforms)"
proof -
  have r: "list_all2 sameItemUnlessUnavailable exampleCart repricedCart"
    by (simp add: exampleCart_def repricedCart_def productA_def sameItemUnlessUnavailable_def
        samePriceUnlessUnavailable_def)
  have d: "exampleCart \<noteq> repricedCart"
    by (simp add: exampleCart_def repricedCart_def productA_def)
  show ?thesis
    using unavailable_price_never_counts [OF r, of "Some ''Y''" None examplePlatforms] r d
    by simp
qed

section \<open>Price resolution\<close>

lemma getPriceInfo_cartPriceInfo:
  assumes "\<not> contextConflicts item ctx"
  shows "getPriceInfo item ctx = cartPriceInfo ctx item"
proof (cases "truthy ctx")
  case True
  then show ?thesis
    using assms
    by (cases "truthy (platform item)")
       (auto simp: contextConflicts_def getPriceInfo_def cartPriceInfo_def js_or_def)
next
  case False
  show ?thesis
  proof (cases "truthy (platform item)")
    case True
    with False show ?thesis
      by (simp add: getPriceInfo_def cartPriceInfo_def js_or_def)
  next
    case unpinned: False
    with False assms have "ctx = None"
      by (cases ctx) (simp_all add: contextConflicts_def)
    with unpinned show ?thesis
      by (simp add: getPriceInfo_def cartPriceInfo_def js_or_def find_None_iff2)
  qed
qed

lemma cartTotalStep_displayedAmount:
  assumes "\<not> contextConflicts item ctx"
  shows "cartTotalStep ctx None item tot =
           (case displayedAmount item ctx of None \<Rightarrow> tot | Some amount \<Rightarrow> tot + amount)"
  by (simp add: cartTotalStep_def displayedAmount_def getPriceInfo_cartPriceInfo [OF assms]
      split: option.splits)

text \<open>
  An entry pinned to Y shown under the context platform X: the cart row resolves X's
  tuple and shows 10, the total resolves Y's tuple, which is unavailable, and adds nothing.
\<close>

theorem pinned_entry_display_differs_from_total:
  "getPriceInfo pinnedToY (Some ''X'')
     = Some \<lparr> p_platform = ''X'', p_price = 10, p_available = True \<rparr> \<and>
   cartPriceInfo (Some ''X'') pinnedToY
     = Some \<lparr> p_platform = ''Y'', p_price = 8, p_available = False \<rparr> \<and>
   getPriceInfo pinnedToY (Some ''X'') \<noteq> cartPriceInfo (Some ''X'') pinnedToY \<and>
   displayedAmount pinnedToY (Some ''X'') = Some 10 \<and>
   getCartTotal [pinnedToY] (Some ''X'') None = 0"
  by code_simp

text \<open>
  Claim C2, amended. In \<^verbatim>\<open>getCartTotal\<close> (called without a platform argument) every
  entry resolves to the price tuple of its own platform when that is set, regardless of
  the selected platform, and to the tuple of the selected platform otherwise. In the cart
  row, \<^verbatim>\<open>getPriceInfo\<close> gives the platform filter precedence: it resolves to the filter's
  tuple when a filter is set, regardless of the entry's platform, to the tuple of the
  entry's platform when only that is set, and to nothing when neither is set. The two
  resolve the same tuple, and the total adds entry by entry exactly the amounts the rows
  show (nothing for a row shown as not available), for every entry and context platform
  except in two cases: the entry is pinned to a platform different from the context
  platform, or the entry is not pinned and the context platform is the empty string.
\<close>

theorem price_resolution_rules:
  "getCartTotal cart sel None =
     fold (\<lambda>item tot.
        case find (\<lambda>p. Some (p_platform p) = (if truthy (platform item) then platform item else sel))
               (prices (product item)) of
          None \<Rightarrow> tot
        | Some priceInfo \<Rightarrow>
            if p_available priceInfo then tot + p_price priceInfo * quantity item else tot)
       cart 0 \<and>
   getPriceInfo item ctx =
     (if truthy ctx then find (\<lambda>p. Some (p_platform p) = ctx) (prices (product item))
      else if truthy (platform item)
           then find (\<lambda>p. Some (p_platform p) = platform item) (prices (product item))
           else None) \<and>
   (\<not> contextConflicts item ctx \<longrightarrow> getPriceInfo item ctx = cartPriceInfo ctx item) \<and>
   ((\<forall>entry\<in>set cart. \<not> contextConflicts entry ctx) \<longrightarrow>
      getCartTotal cart ctx None =
        fold (\<lambda>entry tot. case displayedAmount entry ctx of
                             None \<Rightarrow> tot | Some amount \<Rightarrow> tot + amount) cart 0)"
proof -
  have total_rule: "getCartTotal cart sel None =
     fold (\<lambda>item tot.
        case find (\<lambda>p. Some (p_platform p) = (if truthy (platform item) then platform item else sel))
               (prices (product item)) of
          None \<Rightarrow> tot
        | Some priceInfo \<Rightarrow>
            if p_available priceInfo then tot + p_price priceInfo * quantity item else tot)
       cart 0"
    unfolding getCartTotal_def
    by (rule fold_cong) (simp_all add: fun_eq_iff cartTotalStep_def cartPriceInfo_def js_or_def)
  have row_rule: "getPriceInfo item ctx =
     (if truthy ctx then find (\<lambda>p. Some (p_platform p) = ctx) (prices (product item))
      else if truthy (platform item)
           then find (\<lambda>p. Some (p_platform p) = platform item) (prices (product item))
           else None)"
    by (simp add: getPriceInfo_def js_or_def)
  have agree: "getCartTotal cart ctx None =
        fold (\<lambda>entry tot. case displayedAmount entry ctx of
                             None \<Rightarrow> tot | Some amount \<Rightarrow> tot + amount) cart 0"
    if "\<forall>entry\<in>set cart. \<not> contextConflicts entry ctx"
    unfolding getCartTotal_def
    using that by (intro fold_cong) (simp_all add: fun_eq_iff cartTotalStep_displayedAmount)
  show ?thesis
    using total_rule row_rule agree getPriceInfo_cartPriceInfo by blast
qed

theorem price_resolution_rules_witness:
  "\<not> contextConflicts unpinnedItem (Some ''X'') \<and>
   getPriceInfo unpinnedItem (Some ''X'') = cartPriceInfo (Some ''X'') unpinnedItem \<and>
   getPriceInfo unpinnedItem (Some ''X'')
     = Some \<lparr> p_platform = ''X'', p_price = 10, p_available = True \<rparr> \<and>
   displayedAmount unpinnedItem (Some ''X'') = Some 20 \<and>
   getCartTotal [unpinnedItem] (Some ''X'') None = 20 \<and>
   \<not> contextConflicts pinnedToY None \<and>
   getPriceInfo pinnedToY None = cartPriceInfo None pinnedToY \<and>
   displayedAmount pinnedToY None = None \<and>
   getCartTotal [unpinnedItem, pinnedToY] (Some ''X'') None = 20"
proof -
  have n: "\<not> contextConflicts unpinnedItem (Some ''X'')" "\<not> contextConflicts pinnedToY None"
    by (simp_all add: contextConflicts_def unpinnedItem_def pinnedToY_def)
  have b: "\<forall>entry\<in>set [unpinnedItem]. \<not> contextConflicts entry (Some ''X'')"
    using n by simp
  have d: "displayedAmount unpinnedItem (Some ''X'') = Some 20"
    "displayedAmount pinnedToY None = None"
    "getPriceInfo unpinnedItem (Some ''X'')
       = Some \<lparr> p_platform = ''X'', p_price = 10, p_available = True \<rparr>"
    "getCartTotal [unpinnedItem, pinnedToY] (Some ''X'') None = 20"
    by code_simp+
  have a1: "getPriceInfo unpinnedItem (Some ''X'') = cartPriceInfo (Some ''X'') unpinnedItem"
    using price_resolution_rules [of "[unpinnedItem]" "Some ''X''" unpinnedItem "Some ''X''"] n(1)
    by blast
  have "getCartTotal [unpinnedItem] (Some ''X'') None =
        fold (\<lambda>entry tot. case displayedAmount entry (Some ''X'') of
                             None \<Rightarrow> tot | Some amount \<Rightarrow> tot + amount) [unpinnedItem] 0"
    using price_resolution_rules [of "[unpinnedItem]" "Some ''X''" unpinnedItem "Some ''X''"] b
    by blast
  then have t: "getCartTotal [unpinnedItem] (Some ''X'') None = 20"
    by (simp add: d(1))
  have a2: "getPriceInfo pinnedToY None = cartPriceInfo None pinnedToY"
    using price_resolution_rules [of "[]" None pinnedToY None] n(2) by blast
  from n a1 a2 t d show ?thesis by blast
qed

section \<open>Best deal\<close>

lemma find_available_sorted:
  "find available (sortedPlatforms cart sel ps) = None \<longleftrightarrow>
     (\<forall>p\<in>set ps. \<not> areAllItemsAvailable cart (platform_id p))"
  by (auto simp: find_None_iff set_sortedPlatforms platformResult_def)

text \<open>
  Claim C4. The best deal is the first element of the ranked sequence whose available
  flag is true; it is absent exactly when no platform of the input has every cart item
  available, and absence is the value \<open>None\<close>: \<open>bestPlatform\<close> is a total function that
  has no error result.
\<close>

theorem bestPlatform_first_available:
  "(bestPlatform cart sel ps = None \<longleftrightarrow> (\<forall>p\<in>set ps. \<not> areAllItemsAvailable cart (platform_id p))) \<and>
   (\<forall>r. bestPlatform cart sel ps = Some r \<longrightarrow>
      (\<exists>i<length (sortedPlatforms cart sel ps).
          sortedPlatforms cart sel ps ! i = r \<and> available r \<and>
          (\<forall>j<i. \<not> available (sortedPlatforms cart sel ps ! j))))"
  unfolding bestPlatform_def
  by (auto simp: find_available_sorted find_Some_iff)

theorem bestPlatform_first_available_witness:
  "bestPlatform exampleCart None examplePlatforms
     = Some (platformResult exampleCart None \<lparr> platform_id = ''X'', platform_name = ''X'' \<rparr>) \<and>
   (\<exists>i<length (sortedPlatforms exampleCart None examplePlatforms).
      sortedPlatforms exampleCart None examplePlatforms ! i
        = platformResult exampleCart None \<lparr> platform_id = ''X'', platform_name = ''X'' \<rparr> \<and>
      (\<forall>j<i. \<not> available (sortedPlatforms exampleCart None examplePlatforms ! j))) \<and>
   \<not> areAllItemsAvailable exampleCart ''Y'' \<and>
   bestPlatform exampleCart None [\<lparr> platform_id = ''Y'', platform_name = ''Y'' \<rparr>] = None"
proof -
  have b: "bestPlatform exampleCart None examplePlatforms
     = Some (platformResult exampleCart None \<lparr> platform_id = ''X'', platform_name = ''X'' \<rparr>)"
    by code_simp
  have n: "\<forall>p\<in>set [\<lparr> platform_id = ''Y'', platform_name = ''Y'' \<rparr>].
      \<not> areAllItemsAvailable exampleCart (platform_id p)"
    by code_simp
  show ?thesis
    using bestPlatform_first_available [of exampleCart None examplePlatforms]
      bestPlatform_first_available
        [of exampleCart None "[\<lparr> platform_id = ''Y'', platform_name = ''Y'' \<rparr>]"]
      b n
    by auto
qed

section \<open>The empty cart\<close>

lemma sort_key_const:
  assumes "\<forall>x\<in>set xs. f x = k"
  shows "sort_key f xs = xs"
proof -
  have "filter (\<lambda>y. f y = k) (sort_key f xs) = filter (\<lambda>y. f y = k) xs"
    by (rule sort_key_stable)
  moreover have "filter (\<lambda>y. f y = k) (sort_key f xs) = sort_key f xs"
    using assms by (simp add: filter_id_conv)
  moreover have "filter (\<lambda>y. f y = k) xs = xs"
    using assms by (simp add: filter_id_conv)
  ultimately show ?thesis by simp
qed

lemma platformResult_empty: "platformResult [] sel = emptyCartResult"
  by (rule ext) (simp add: platformResult_def emptyCartResult_def getUnavailableItems_def
      areAllItemsAvailable_def getCartTotal_def)

text \<open>
  Claim C5. For the empty cart and every non-empty sequence of platforms, the ranked
  sequence lists every platform, in input order, with available = true and total = 0, and
  the best deal is the first platform of the input. The functions are total, so nothing
  is thrown.
\<close>

theorem empty_cart_all_available:
  assumes "ps \<noteq> []"
  shows "sortedPlatforms [] sel ps = map emptyCartResult ps \<and>
         bestPlatform [] sel ps = Some (emptyCartResult (hd ps))"
proof -
  have "sort_key sortKey (map emptyCartResult ps) = map emptyCartResult ps"
    by (rule sort_key_const [where k = "(False, 0)"]) (auto simp: sortKey_def emptyCartResult_def)
  then have s: "sortedPlatforms [] sel ps = map emptyCartResult ps"
    by (simp add: sortedPlatforms_sort_key platformResult_empty)
  from assms obtain p ps' where "ps = p # ps'" by (cases ps) auto
  then show ?thesis
    using s by (simp add: bestPlatform_def emptyCartResult_def)
qed

theorem empty_cart_all_available_witness:
  "examplePlatforms \<noteq> [] \<and>
   sortedPlatforms [] None examplePlatforms = map emptyCartResult examplePlatforms \<and>
   bestPlatform [] None examplePlatforms
     = Some \<lparr> platform_id = ''X'', platform_name = ''X'',
              unavailableItems = [], available = True, total = 0 \<rparr>"
proof -
  have n: "examplePlatforms \<noteq> []" by (simp add: examplePlatforms_def)
  show ?thesis
    using empty_cart_all_available [OF n, of None] n
    by (simp add: examplePlatforms_def emptyCartResult_def)
qed

section \<open>Independence of the provider's state\<close>

lemma cartTotalStep_selected_irrelevant:
  assumes "pf \<noteq> []"
  shows "cartTotalStep sel (Some pf) item tot = cartTotalStep sel' (Some pf) item tot"
  using assms by (simp add: cartTotalStep_def cartPriceInfo_def js_or_def)

lemma getCartTotal_selected_irrelevant:
  assumes "pf \<noteq> []"
  shows "getCartTotal cart sel (Some pf) = getCartTotal cart sel' (Some pf)"
proof -
  have "cartTotalStep sel (Some pf) = cartTotalStep sel' (Some pf)"
    by (intro ext) (rule cartTotalStep_selected_irrelevant [OF assms])
  then show ?thesis by (simp add: getCartTotal_def)
qed

text \<open>
  A platform whose identity is the empty string: the guard of \<^verbatim>\<open>getCartTotal\<close> is then
  falsy, no entry is skipped, and an entry that is not pinned is priced on the selected
  platform. The total is 20 while X is selected and 0 while nothing is selected.
\<close>

theorem empty_id_total_depends_on_selection:
  "map available (sortedPlatforms emptyIdCart (Some ''X'') emptyIdPlatforms) = [True] \<and>
   map total (sortedPlatforms emptyIdCart (Some ''X'') emptyIdPlatforms) = [20] \<and>
   map total (sortedPlatforms emptyIdCart None emptyIdPlatforms) = [0] \<and>
   sortedPlatforms emptyIdCart (Some ''X'') emptyIdPlatforms
     \<noteq> sortedPlatforms emptyIdCart None emptyIdPlatforms"
  by code_simp

text \<open>
  Claim C9, amended. For every cart and every sequence of platforms whose identities are
  all non-empty strings, the ranked sequence and the best deal are functions of the cart
  and the platforms alone: the only other state the computation reads, the provider's
  selected platform (through \<^verbatim>\<open>getCartTotal\<close>), has no influence, so that calls with the
  same cart and the same platforms give the same output whatever is selected at each call.
\<close>

theorem sortedPlatforms_independent_of_selection:
  assumes "\<forall>p\<in>set ps. platform_id p \<noteq> []"
  shows "sortedPlatforms cart sel ps = sortedPlatforms cart sel' ps \<and>
         bestPlatform cart sel ps = bestPlatform cart sel' ps"
proof -
  have "map (platformResult cart sel) ps = map (platformResult cart sel') ps"
    using assms
    by (auto simp: platformResult_def getCartTotal_selected_irrelevant [of _ cart sel sel'])
  then show ?thesis by (simp only: sortedPlatforms_def bestPlatform_def)
qed

theorem sortedPlatforms_independent_of_selection_witness:
  "map platform_id examplePlatforms = [''X'', ''Y''] \<and>
   sortedPlatforms pinnedCart None examplePlatforms
     = sortedPlatforms pinnedCart (Some ''Y'') examplePlatforms \<and>
   bestPlatform pinnedCart None examplePlatforms
     = bestPlatform pinnedCart (Some ''Y'') examplePlatforms"
proof -
  have n: "\<forall>p\<in>set examplePlatforms. platform_id p \<noteq> []"
    by (simp add: examplePlatforms_def)
  show ?thesis
    using sortedPlatforms_independent_of_selection [OF n, of pinnedCart None "Some ''Y''"]
    by (simp add: examplePlatforms_def)
qed

section \<open>Frame: the inputs are not modified\<close>

lemma lookup_append_left: "a < length h \<Longrightarrow> lookup (h @ ext) a = lookup h a"
  by (simp add: lookup_def nth_append)

lemma lookup_Some_append: "lookup h a = Some c \<Longrightarrow> lookup (h @ ext) a = Some c"
  by (auto simp: lookup_def nth_append split: if_splits)

lemma lookup_append_length: "lookup (h @ c # ext) (length h) = Some c"
  by (simp add: lookup_def)

lemma platformResult_st_Some:
  assumes "lookup h cartAt = Some (Items cart)"
  shows "platformResult_st cartAt sel p h =
     Some (\<lparr> platform_id = platform_id p, platform_name = platform_name p,
             unavailableItemsAt = length h,
             s_available = areAllItemsAvailable cart (platform_id p),
             s_total = total (platformResult cart sel p) \<rparr>,
           h @ [Items (getUnavailableItems cart (platform_id p))])"
proof -
  let ?h1 = "h @ [Items (getUnavailableItems cart (platform_id p))]"
  have u: "getUnavailableItems_st cartAt (platform_id p) h = Some (length h, ?h1)"
    using assms by (simp add: getUnavailableItems_st_def alloc_def getUnavailableItems_def)
  have c: "lookup ?h1 cartAt = Some (Items cart)"
    using assms by (rule lookup_Some_append)
  have a: "areAllItemsAvailable_st cartAt (platform_id p) ?h1
             = Some (areAllItemsAvailable cart (platform_id p))"
    using c by (simp add: areAllItemsAvailable_st_def areAllItemsAvailable_def)
  have t: "getCartTotal_st cartAt sel (Some (platform_id p)) ?h1
             = Some (getCartTotal cart sel (Some (platform_id p)))"
    using c by (simp add: getCartTotal_st_def getCartTotal_def)
  show ?thesis
    unfolding platformResult_st_def u by (simp add: a t platformResult_def)
qed

lemma resultOf_platformResult_st:
  "resultOf (h @ Items (getUnavailableItems cart (platform_id p)) # ext)
     \<lparr> platform_id = platform_id p, platform_name = platform_name p,
       unavailableItemsAt = length h,
       s_available = areAllItemsAvailable cart (platform_id p),
       s_total = total (platformResult cart sel p) \<rparr>
   = platformResult cart sel p"
  by (simp add: resultOf_def lookup_append_length platformResult_def)

lemma mapPlatforms_st_Some:
  assumes "lookup h cartAt = Some (Items cart)"
  shows "\<exists>rs ext. mapPlatforms_st cartAt sel ps h = Some (rs, h @ ext) \<and>
           (\<forall>more. map (resultOf (h @ ext @ more)) rs = map (platformResult cart sel) ps)"
  using assms
proof (induction ps arbitrary: h)
  case Nil
  show ?case by simp
next
  case (Cons p ps)
  let ?c = "Items (getUnavailableItems cart (platform_id p))"
  let ?r = "\<lparr> platform_id = platform_id p, platform_name = platform_name p,
             unavailableItemsAt = length h,
             s_available = areAllItemsAvailable cart (platform_id p),
             s_total = total (platformResult cart sel p) \<rparr>"
  have step: "platformResult_st cartAt sel p h = Some (?r, h @ [?c])"
    using Cons.prems by (rule platformResult_st_Some)
  have "lookup (h @ [?c]) cartAt = Some (Items cart)"
    using Cons.prems by (rule lookup_Some_append)
  from Cons.IH [OF this] obtain rs ext where
    rest: "mapPlatforms_st cartAt sel ps (h @ [?c]) = Some (rs, (h @ [?c]) @ ext)" and
    abs: "\<And>more. map (resultOf ((h @ [?c]) @ ext @ more)) rs = map (platformResult cart sel) ps"
    by blast
  have run: "mapPlatforms_st cartAt sel (p # ps) h = Some (?r # rs, h @ (?c # ext))"
    using step rest by simp
  have "map (resultOf (h @ (?c # ext) @ more)) (?r # rs) = map (platformResult cart sel) (p # ps)"
    for more
    using abs [of more] resultOf_platformResult_st [of h cart p "ext @ more" sel] by simp
  with run show ?case by blast
qed

lemma compareResults_st_resultOf:
  "compareResults_st a b = compareResults (resultOf h a) (resultOf h b)"
  by (simp add: compareResults_st_def compareResults_def resultOf_def)

lemma map_array_insert:
  assumes "\<And>a b. cmp' a b = cmp (f a) (f b)"
  shows "map f (array_insert cmp' x xs) = array_insert cmp (f x) (map f xs)"
  by (induction xs) (simp_all add: assms)

lemma map_array_sort:
  assumes "\<And>a b. cmp' a b = cmp (f a) (f b)"
  shows "map f (array_sort cmp' xs) = array_sort cmp (map f xs)"
  by (induction xs) (simp_all add: map_array_insert [where cmp = cmp, OF assms])

text \<open>
  \<^verbatim>\<open>sort\<close> does reorder the array it is called on: applied to an array of the store, it
  changes that array.
\<close>

lemma array_sort_st_in_place:
  "array_sort_st 0
     [Results [\<lparr> platform_id = ''Y'', platform_name = ''Y'', unavailableItemsAt = 1,
                 s_available = False, s_total = - 1 \<rparr>,
               \<lparr> platform_id = ''X'', platform_name = ''X'', unavailableItemsAt = 2,
                 s_available = True, s_total = 0 \<rparr>]]
   = Some (0,
     [Results [\<lparr> platform_id = ''X'', platform_name = ''X'', unavailableItemsAt = 2,
                 s_available = True, s_total = 0 \<rparr>,
               \<lparr> platform_id = ''Y'', platform_name = ''Y'', unavailableItemsAt = 1,
                 s_available = False, s_total = - 1 \<rparr>]])"
  by code_simp

text \<open>
  Claim C10. The computation does not modify its inputs. Started in any store in which
  the platforms reference holds the array \<open>ps\<close> and the cart reference holds the array
  \<open>cart\<close>, it returns; afterwards both references hold the same arrays, element for
  element, and so does every other address of the initial store; the ranked array lies
  at a new address (the sort was applied to the array created by \<^verbatim>\<open>map\<close>), and read back
  it is the ranked sequence of the functional model.
\<close>

theorem sortedPlatforms_st_leaves_inputs_unchanged:
  assumes "lookup h platformsAt = Some (Platforms ps)" "lookup h cartAt = Some (Items cart)"
  shows "\<exists>a h'. sortedPlatforms_st platformsAt cartAt sel h = Some (a, h') \<and>
           lookup h' platformsAt = Some (Platforms ps) \<and>
           lookup h' cartAt = Some (Items cart) \<and>
           take (length h) h' = h \<and>
           length h \<le> a \<and>
           resultsAt h' a = Some (sortedPlatforms cart sel ps)"
proof -
  from mapPlatforms_st_Some [OF assms(2), of sel ps] obtain rs ext where
    run: "mapPlatforms_st cartAt sel ps h = Some (rs, h @ ext)" and
    abs: "\<And>more. map (resultOf (h @ ext @ more)) rs = map (platformResult cart sel) ps"
    by blast
  let ?a = "length (h @ ext)"
  let ?h' = "h @ ext @ [Results (array_sort compareResults_st rs)]"
  have m: "array_map_st platformsAt cartAt sel h = Some (?a, (h @ ext) @ [Results rs])"
    using assms(1) run by (simp add: array_map_st_def alloc_def)
  have s: "array_sort_st ?a ((h @ ext) @ [Results rs]) = Some (?a, ?h')"
    by (simp add: array_sort_st_def lookup_def nth_append list_update_append)
  have r: "sortedPlatforms_st platformsAt cartAt sel h = Some (?a, ?h')"
    unfolding sortedPlatforms_st_def m using s by simp
  have "map (resultOf ?h') (array_sort compareResults_st rs)
          = array_sort compareResults (map (resultOf ?h') rs)"
    by (rule map_array_sort) (rule compareResults_st_resultOf)
  also have "\<dots> = sortedPlatforms cart sel ps"
    using abs [of "[Results (array_sort compareResults_st rs)]"] by (simp add: sortedPlatforms_def)
  finally have res: "resultsAt ?h' ?a = Some (sortedPlatforms cart sel ps)"
    using lookup_append_length [of "h @ ext" "Results (array_sort compareResults_st rs)" "[]"]
    by (simp add: resultsAt_def)
  have "lookup ?h' platformsAt = Some (Platforms ps)" "lookup ?h' cartAt = Some (Items cart)"
    using assms by (simp_all add: lookup_Some_append)
  with r res show ?thesis by simp
qed

theorem sortedPlatforms_st_leaves_inputs_unchanged_witness:
  "lookup exampleStore 0 = Some (Platforms examplePlatforms) \<and>
   lookup exampleStore 1 = Some (Items exampleCart) \<and>
   (\<exists>a h'. sortedPlatforms_st 0 1 None exampleStore = Some (a, h') \<and>
      lookup h' 0 = Some (Platforms examplePlatforms) \<and>
      lookup h' 1 = Some (Items exampleCart) \<and>
      take (length exampleStore) h' = exampleStore \<and>
      length exampleStore \<le> a \<and>
      resultsAt h' a = Some (sortedPlatforms exampleCart None examplePlatforms))"
proof -
  have p: "lookup exampleStore 0 = Some (Platforms examplePlatforms)"
    by (simp add: exampleStore_def lookup_def)
  have c: "lookup exampleStore 1 = Some (Items exampleCart)"
    by (simp add: exampleStore_def lookup_def)
  show ?thesis
    using sortedPlatforms_st_leaves_inputs_unchanged [OF p c, of None] p c by simp
qed

end
